theory Spec2Isabelle
  imports Main
begin

section \<open>JavaScript strings\<close>

text \<open>
  A JavaScript string is a sequence of UTF-16 code units, and every operation of the
  client used below (\<^verbatim>\<open>trim\<close>, the regular expressions of \<^verbatim>\<open>formatAnswer\<close>, none of which
  carries the \<^verbatim>\<open>u\<close> flag, and the serialisation behind \<^verbatim>\<open>escapeHtml\<close>) works on code units.
  A string is therefore a list of code units, each a natural number; \<open>lit\<close> embeds an
  ASCII literal, and a character outside ASCII is written by its code units.
\<close>

type_synonym jsstr = "nat list"

definition lit :: "string \<Rightarrow> jsstr" where
  "lit s = map of_char s"

text \<open>
  \<^verbatim>\<open>String.prototype.trim\<close> removes the ECMAScript white space and line terminator code
  units from both ends: TAB, LF, VT, FF, CR, SP, NBSP, U+1680, U+2000 to U+200A, U+2028,
  U+2029, U+202F, U+205F, U+3000 and U+FEFF.
\<close>

definition is_space :: "nat \<Rightarrow> bool" where
  "is_space c =
     (c \<in> {9, 10, 11, 12, 13, 32, 160, 5760, 8232, 8233, 8239, 8287, 12288, 65279}
      \<or> (8192 \<le> c \<and> c \<le> 8202))"

definition trim :: "jsstr \<Rightarrow> jsstr" where
  "trim s = rev (dropWhile is_space (rev (dropWhile is_space s)))"

text \<open>The decimal digits of a number, as string concatenation with a number produces them.\<close>

function dec :: "nat \<Rightarrow> jsstr" where
  "dec n = (if n < 10 then [48 + n] else dec (n div 10) @ [48 + n mod 10])"
  by pat_completeness auto
termination
  by (relation "measure id") auto

declare dec.simps [simp del]

section \<open>Utility functions\<close>

subsection \<open>escapeHtml\<close>

text \<open>
  \<^verbatim>\<open>escapeHtml(text)\<close> creates a \<^verbatim>\<open>div\<close>, assigns \<^verbatim>\<open>text\<close> to its \<^verbatim>\<open>textContent\<close> and returns
  its \<^verbatim>\<open>innerHTML\<close>. The element then holds one text node (none for the empty string),
  and the browser serialises a text node by replacing \<^verbatim>\<open>&\<close> with \<^verbatim>\<open>&amp;\<close>, U+00A0 with
  \<^verbatim>\<open>&nbsp;\<close>, \<^verbatim>\<open><\<close> with \<^verbatim>\<open>&lt;\<close> and \<^verbatim>\<open>>\<close> with \<^verbatim>\<open>&gt;\<close>; quotes are left as they are.
\<close>

definition escape_unit :: "nat \<Rightarrow> jsstr" where
  "escape_unit c =
     (if c = 38 then lit ''&amp;''
      else if c = 160 then lit ''&nbsp;''
      else if c = 60 then lit ''&lt;''
      else if c = 62 then lit ''&gt;''
      else [c])"

definition escapeHtml :: "jsstr \<Rightarrow> jsstr" where
  "escapeHtml txt = concat (map escape_unit txt)"

text \<open>
  Reading markup back as text: the character references that \<open>escapeHtml\<close> can produce
  are decoded, every other code unit stands for itself. (A browser decodes further named
  references; none of them can occur in the output of \<open>escapeHtml\<close>, where every
  ampersand starts one of the four references below.)
\<close>

fun parse_text :: "jsstr \<Rightarrow> jsstr" where
  "parse_text [] = []"
| "parse_text (c # cs) =
     (if c = 38 \<and> take 4 cs = lit ''amp;'' then 38 # parse_text (drop 4 cs)
      else if c = 38 \<and> take 5 cs = lit ''nbsp;'' then 160 # parse_text (drop 5 cs)
      else if c = 38 \<and> take 3 cs = lit ''lt;'' then 60 # parse_text (drop 3 cs)
      else if c = 38 \<and> take 3 cs = lit ''gt;'' then 62 # parse_text (drop 3 cs)
      else c # parse_text cs)"

subsection \<open>getBasename\<close>

text \<open>\<^verbatim>\<open>path.split(/[\\/]/).pop()\<close>: what follows the last slash or backslash.\<close>

definition getBasename :: "jsstr \<Rightarrow> jsstr" where
  "getBasename path = rev (takeWhile (\<lambda>c. c \<noteq> 47 \<and> c \<noteq> 92) (rev path))"

subsection \<open>formatAnswer\<close>

text \<open>
  \<^verbatim>\<open>text.replace(re, template)\<close> with a global regular expression scans the string from
  the left: at each position the expression is tried; where it matches, the replacement
  is emitted and the scan goes on behind the match; where it does not, the code unit is
  copied. None of the six expressions looks behind or at an anchor, so whether one
  matches at a position depends on the rest of the string only: a matcher maps the rest
  to the replacement and what follows the match. (None of the six can match the empty
  string; the two branches for an empty match follow the language all the same.)
\<close>

fun replace_all :: "(jsstr \<Rightarrow> (jsstr \<times> jsstr) option) \<Rightarrow> jsstr \<Rightarrow> jsstr" where
  "replace_all m [] = (case m [] of None \<Rightarrow> [] | Some (out, rest) \<Rightarrow> out)"
| "replace_all m (c # cs) =
     (case m (c # cs) of
        None \<Rightarrow> c # replace_all m cs
      | Some (out, rest) \<Rightarrow>
          if length rest \<le> length cs then out @ replace_all m rest
          else out @ c # replace_all m cs)"

text \<open>\<^verbatim>\<open>\w\<close> is \<^verbatim>\<open>[A-Za-z0-9_]\<close>.\<close>

definition is_word :: "nat \<Rightarrow> bool" where
  "is_word c =
     ((48 \<le> c \<and> c \<le> 57) \<or> (65 \<le> c \<and> c \<le> 90) \<or> c = 95 \<or> (97 \<le> c \<and> c \<le> 122))"

text \<open>Three backticks.\<close>

definition fence :: jsstr where
  "fence = [96, 96, 96]"

text \<open>
  The lazy \<^verbatim>\<open>([\s\S]*?)\<close> followed by three backticks: the group is what stands before
  the first occurrence of three backticks.
\<close>

fun until_fence :: "jsstr \<Rightarrow> (jsstr \<times> jsstr) option" where
  "until_fence [] = None"
| "until_fence (c # cs) =
     (if take 3 (c # cs) = fence then Some ([], drop 3 (c # cs))
      else (case until_fence cs of
              None \<Rightarrow> None
            | Some (body, rest) \<Rightarrow> Some (c # body, rest)))"

text \<open>
  \<^verbatim>\<open>/```(\w+)?\n([\s\S]*?)```/\<close> with the template \<^verbatim>\<open><pre><code>$2</code></pre>\<close>. The
  greedy optional \<^verbatim>\<open>(\w+)?\<close> takes the longest run of word characters; giving some of
  them back cannot help, because the line feed that must follow is no word character.
\<close>

definition match_code_block :: "jsstr \<Rightarrow> (jsstr \<times> jsstr) option" where
  "match_code_block s =
     (if take 3 s = fence then
        (case dropWhile is_word (drop 3 s) of
           [] \<Rightarrow> None
         | c # cs \<Rightarrow>
             if c = 10 then
               (case until_fence cs of
                  None \<Rightarrow> None
                | Some (body, rest) \<Rightarrow>
                    Some (lit ''<pre><code>'' @ body @ lit ''</code></pre>'', rest))
             else None)
      else None)"

text \<open>
  The three expressions of the shape delimiter, \<^verbatim>\<open>([^x]+)\<close>, delimiter, where \<open>x\<close> is the
  code unit the delimiter is made of: the greedy group is the longest run without \<open>x\<close>,
  it must not be empty, and the delimiter must follow it.
\<close>

definition match_delimited ::
  "jsstr \<Rightarrow> nat \<Rightarrow> jsstr \<Rightarrow> jsstr \<Rightarrow> jsstr \<Rightarrow> (jsstr \<times> jsstr) option" where
  "match_delimited d x opn cls s =
     (if take (length d) s = d then
        (let body = takeWhile (\<lambda>c. c \<noteq> x) (drop (length d) s);
             after = dropWhile (\<lambda>c. c \<noteq> x) (drop (length d) s)
         in if body \<noteq> [] \<and> take (length d) after = d
            then Some (opn @ body @ cls, drop (length d) after)
            else None)
      else None)"

text \<open>\<^verbatim>\<open>/`([^`]+)`/\<close> with \<^verbatim>\<open><code>$1</code>\<close>.\<close>

definition match_inline_code :: "jsstr \<Rightarrow> (jsstr \<times> jsstr) option" where
  "match_inline_code = match_delimited [96] 96 (lit ''<code>'') (lit ''</code>'')"

text \<open>\<^verbatim>\<open>/\*\*([^*]+)\*\*/\<close> with \<^verbatim>\<open><strong>$1</strong>\<close>.\<close>

definition match_bold :: "jsstr \<Rightarrow> (jsstr \<times> jsstr) option" where
  "match_bold = match_delimited [42, 42] 42 (lit ''<strong>'') (lit ''</strong>'')"

text \<open>\<^verbatim>\<open>/\*([^*]+)\*/\<close> with \<^verbatim>\<open><em>$1</em>\<close>.\<close>

definition match_italic :: "jsstr \<Rightarrow> (jsstr \<times> jsstr) option" where
  "match_italic = match_delimited [42] 42 (lit ''<em>'') (lit ''</em>'')"

text \<open>An expression that is a fixed string: \<^verbatim>\<open>/\n\n/\<close> and \<^verbatim>\<open>/\n/\<close>.\<close>

definition match_literal :: "jsstr \<Rightarrow> jsstr \<Rightarrow> jsstr \<Rightarrow> (jsstr \<times> jsstr) option" where
  "match_literal pat out s =
     (if take (length pat) s = pat then Some (out, drop (length pat) s) else None)"

definition formatAnswer :: "jsstr \<Rightarrow> jsstr" where
  "formatAnswer txt =
     (let html =
        replace_all (match_literal [10] (lit ''<br>''))
         (replace_all (match_literal [10, 10] (lit ''</p><p>''))
           (replace_all match_italic
             (replace_all match_bold
               (replace_all match_inline_code
                 (replace_all match_code_block txt)))))
      in if take 1 html \<noteq> [60] then lit ''<p>'' @ html @ lit ''</p>'' else html)"

section \<open>The page and the session\<close>

subsection \<open>Data\<close>

text \<open>
  An element of the message list (\<^verbatim>\<open>elements.messages\<close>): the \<^verbatim>\<open>div\<close> that \<^verbatim>\<open>addMessage\<close> or
  \<^verbatim>\<open>showTypingIndicator\<close> appends, with its class, its \<^verbatim>\<open>id\<close> attribute when it has one,
  the markup assigned to its \<^verbatim>\<open>innerHTML\<close>, and the ids of the elements that the browser
  created inside it when it parsed that markup (in document order, an element removed
  since left out). \<^verbatim>\<open>document.getElementById\<close> searches the whole document, so it finds
  these elements too.
\<close>

record entry =
  className :: jsstr
  elem_id :: "jsstr option"
  innerHTML :: jsstr
  inner_ids :: "jsstr list"

text \<open>The calls to the service: \<^verbatim>\<open>GET /status\<close>, \<^verbatim>\<open>POST /load\<close> with the path, \<^verbatim>\<open>POST /ask\<close> with
  the question and \<^verbatim>\<open>top_k\<close>.\<close>

datatype request = GetStatus | PostLoad jsstr | PostAsk jsstr nat

text \<open>
  What \<^verbatim>\<open>await fetch(...)\<close> followed by \<^verbatim>\<open>await response.json()\<close> can give: \<^verbatim>\<open>fetch\<close> rejects
  (the message of the error), the body is no JSON (the message of the error), or a body
  arrives with \<^verbatim>\<open>response.ok\<close>. A body is an object; a property is \<open>None\<close> when the
  object does not have it.
\<close>

datatype 'a response = NetworkError jsstr | BadJson jsstr | Json bool 'a

text \<open>
  A count of the statistics is shown by assigning \<^verbatim>\<open>value || 0\<close> to \<^verbatim>\<open>textContent\<close>. Its model
  is \<open>None\<close> when the property is missing or its value is falsy (then 0 is shown), and
  otherwise the text into which the browser converts the value.
\<close>

record repo_stats =
  unique_files :: "jsstr option"
  total_chunks :: "jsstr option"
  total_vectors :: "jsstr option"

record status_body =
  repository_loaded :: bool
  repository_path :: "jsstr option"
  status_stats :: "repo_stats option"

text \<open>\<open>load_stats\<close> is \<^verbatim>\<open>data.stats\<close>, and inside it \<^verbatim>\<open>data.stats.vectors\<close>.\<close>

record load_body =
  load_detail :: "jsstr option"
  load_message :: "jsstr option"
  load_stats :: "repo_stats option option"

record ask_body =
  ask_detail :: "jsstr option"
  answer :: "jsstr option"
  source_files :: "jsstr list option"

text \<open>
  The session: the \<^verbatim>\<open>state\<close> object, the properties of the page's elements that the
  client reads or writes, and the environment: the clock (milliseconds), the calls issued
  so far, the due times of the pending \<^verbatim>\<open>setTimeout\<close> callbacks of \<^verbatim>\<open>showError\<close>, and the
  calls of \<^verbatim>\<open>checkStatus\<close>, \<^verbatim>\<open>loadRepository\<close> and \<^verbatim>\<open>sendMessage\<close> suspended at their \<^verbatim>\<open>await\<close>
  (with the local variable each one uses when it resumes: the path, the typing id).
  \<^verbatim>\<open>scrollToBottom\<close> and \<^verbatim>\<open>autoResizeTextarea\<close> change the layout only and are left out.

  The environment also holds the browser's HTML parser, as far as the client depends on
  it: \<open>ids_in_markup\<close> gives, for a string assigned to \<^verbatim>\<open>innerHTML\<close>, the ids of the elements
  that the parser creates, in document order. The parser is the browser's, so the
  properties below hold for every such function. The page itself is not among the
  sources; the ids the client looks up in it are those of the \<^verbatim>\<open>elements\<close> table, and the
  page is taken to hold no element outside the message list with an id that starts with
  \<^verbatim>\<open>typing-\<close>, so a lookup of a typing id finds an element of the message list or none.
\<close>

record app =
  repositoryLoaded :: bool
  isLoading :: bool
  currentPath :: "jsstr option"
  repoPath_value :: jsstr
  repoStatus_className :: jsstr
  repoStatus_text :: jsstr
  statsSection_hidden :: bool
  statFiles :: jsstr
  statChunks :: jsstr
  statVectors :: jsstr
  messages :: "entry list"
  messageInput_value :: jsstr
  messageInput_disabled :: bool
  sendBtn_disabled :: bool
  inputHint :: jsstr
  loadingOverlay_hidden :: bool
  loadingText :: jsstr
  clock :: nat
  requests :: "request list"
  timers :: "nat list"
  awaiting_status :: nat
  awaiting_load :: "jsstr list"
  awaiting_ask :: "jsstr list"
  ids_in_markup :: "jsstr \<Rightarrow> jsstr list"

subsection \<open>UI functions\<close>

definition avatar_svg :: jsstr where
  \<open>avatar_svg = lit ''<svg viewBox="0 0 24 24" fill="none" stroke="currentColor" stroke-width="2">\<newline>             <path d="M16 18l6-6-6-6M8 6l-6 6 6 6"/>\<newline>           </svg>''\<close>

definition message_html :: "jsstr \<Rightarrow> jsstr \<Rightarrow> jsstr" where
  \<open>message_html avatar content =
     lit ''\<newline>        <div class="message-avatar">'' @
     avatar @
     lit ''</div>\<newline>        <div class="message-content">\<newline>            <div class="message-text">'' @
     content @
     lit ''</div>\<newline>        </div>\<newline>    ''\<close>

definition addMessage :: "jsstr \<Rightarrow> jsstr \<Rightarrow> app \<Rightarrow> app" where
  "addMessage role content s =
     (let avatar = (if role = lit ''assistant'' then avatar_svg else lit ''You'');
          markup = message_html avatar content
      in s\<lparr>messages := messages s @
             [\<lparr>className = lit ''message '' @ role, elem_id = None,
               innerHTML = markup, inner_ids = ids_in_markup s markup\<rparr>]\<rparr>)"

definition typing_html :: jsstr where
  \<open>typing_html = lit ''\<newline>        <div class="message-avatar">\<newline>            <svg viewBox="0 0 24 24" fill="none" stroke="currentColor" stroke-width="2">\<newline>                <path d="M16 18l6-6-6-6M8 6l-6 6 6 6"/>\<newline>            </svg>\<newline>        </div>\<newline>        <div class="message-content">\<newline>            <div class="message-text">\<newline>                <div class="typing-indicator">\<newline>                    <span></span><span></span><span></span>\<newline>                </div>\<newline>            </div>\<newline>        </div>\<newline>    ''\<close>

text \<open>The placeholder with the id \<open>i\<close>, as a browser with the parser \<open>p\<close> builds it.\<close>

definition typing_entry :: "(jsstr \<Rightarrow> jsstr list) \<Rightarrow> jsstr \<Rightarrow> entry" where
  "typing_entry p i =
     \<lparr>className = lit ''message assistant'', elem_id = Some i, innerHTML = typing_html,
      inner_ids = p typing_html\<rparr>"

text \<open>
  \<^verbatim>\<open>'typing-' + Date.now()\<close>; the function returns the id with the new session. \<^verbatim>\<open>Date.now()\<close>
  is a whole number of milliseconds below \<^verbatim>\<open>8.64e15\<close>, which the concatenation writes with
  all its decimal digits.
\<close>

definition showTypingIndicator :: "app \<Rightarrow> jsstr \<times> app" where
  "showTypingIndicator s =
     (let i = lit ''typing-'' @ dec (clock s)
      in (i, s\<lparr>messages := messages s @ [typing_entry (ids_in_markup s) i]\<rparr>))"

text \<open>
  \<^verbatim>\<open>document.getElementById(id)\<close> gives the first element with the id in document order:
  an entry of the message list stands before the elements inside it, and both before
  the next entry. \<^verbatim>\<open>indicator.remove()\<close> takes that element out, be it an entry or an
  element inside one; with no such element nothing happens.
\<close>

fun remove_by_id :: "jsstr \<Rightarrow> entry list \<Rightarrow> entry list" where
  "remove_by_id i [] = []"
| "remove_by_id i (e # es) =
     (if elem_id e = Some i then es
      else if i \<in> set (inner_ids e) then e\<lparr>inner_ids := remove1 i (inner_ids e)\<rparr> # es
      else e # remove_by_id i es)"

definition removeTypingIndicator :: "jsstr \<Rightarrow> app \<Rightarrow> app" where
  "removeTypingIndicator i s = s\<lparr>messages := remove_by_id i (messages s)\<rparr>"

definition updateRepoStatus :: "jsstr \<Rightarrow> jsstr \<Rightarrow> app \<Rightarrow> app" where
  "updateRepoStatus status txt s =
     s\<lparr>repoStatus_className := lit ''repo-status '' @ status, repoStatus_text := txt\<rparr>"

text \<open>\<^verbatim>\<open>stats.unique_files || 0\<close>: a missing or falsy count shows as 0.\<close>

definition or_zero :: "jsstr option \<Rightarrow> jsstr" where
  "or_zero n = (case n of None \<Rightarrow> lit ''0'' | Some txt \<Rightarrow> txt)"

definition updateStats :: "repo_stats option \<Rightarrow> app \<Rightarrow> app" where
  "updateStats stats s =
     (case stats of
        None \<Rightarrow> s
      | Some st \<Rightarrow>
          s\<lparr>statFiles := or_zero (unique_files st),
            statChunks := or_zero (total_chunks st),
            statVectors := or_zero (total_vectors st),
            statsSection_hidden := False\<rparr>)"

definition enableChat :: "app \<Rightarrow> app" where
  "enableChat s =
     s\<lparr>messageInput_disabled := False, sendBtn_disabled := False,
       inputHint := lit ''Ask anything about your code''\<rparr>"

definition disableSend :: "app \<Rightarrow> app" where
  "disableSend s = s\<lparr>sendBtn_disabled := True\<rparr>"

definition enableSend :: "app \<Rightarrow> app" where
  "enableSend s = s\<lparr>sendBtn_disabled := False\<rparr>"

definition showLoading :: "jsstr \<Rightarrow> app \<Rightarrow> app" where
  "showLoading txt s = s\<lparr>loadingText := txt, loadingOverlay_hidden := False\<rparr>"

definition hideLoading :: "app \<Rightarrow> app" where
  "hideLoading s = s\<lparr>loadingOverlay_hidden := True\<rparr>"

text \<open>
  \<^verbatim>\<open>showError\<close> shows the message and hands a callback to \<^verbatim>\<open>setTimeout\<close> with the delay 3000;
  the handle that \<^verbatim>\<open>setTimeout\<close> returns is dropped. \<open>revert_status\<close> is the callback.
\<close>

definition showError :: "jsstr \<Rightarrow> app \<Rightarrow> app" where
  "showError msg s =
     (updateRepoStatus (lit ''error'') msg s)\<lparr>timers := timers s @ [clock s + 3000]\<rparr>"

definition revert_status :: "app \<Rightarrow> app" where
  "revert_status s =
     (if \<not> repositoryLoaded s then updateRepoStatus [] (lit ''No repository loaded'') s
      else s)"

section \<open>The operations\<close>

text \<open>
  An \<^verbatim>\<open>async\<close> function runs up to its first \<^verbatim>\<open>await\<close> when it is called and resumes when
  the awaited promise settles; other handlers may run in between. Each of the three
  below awaits \<^verbatim>\<open>fetch\<close> and then \<^verbatim>\<open>response.json()\<close> and touches nothing between the two,
  so it is modelled in two parts: the call itself, which ends by issuing the request and
  recording the suspended call, and the part that runs once the \<open>response\<close> is there.
  Inside the \<^verbatim>\<open>try\<close> block an exception is a value: the block returns the message of the
  error thrown, if one was, with the session as the block left it.
\<close>

text \<open>\<^verbatim>\<open>data.detail || fallback\<close>: a missing and an empty detail both give the fallback.\<close>

definition detail_or :: "jsstr option \<Rightarrow> jsstr \<Rightarrow> jsstr" where
  "detail_or d fallback = (case d of None \<Rightarrow> fallback | Some m \<Rightarrow> if m = [] then fallback else m)"

text \<open>The message of the \<^verbatim>\<open>TypeError\<close> for reading a property of \<^verbatim>\<open>undefined\<close> (V8's wording).\<close>

definition cannot_read :: "jsstr \<Rightarrow> jsstr" where
  "cannot_read prop =
     lit ''Cannot read properties of undefined (reading '' @ [39] @ prop @ [39] @ lit '')''"

subsection \<open>checkStatus\<close>

definition checkStatus :: "app \<Rightarrow> app" where
  "checkStatus s =
     s\<lparr>requests := requests s @ [GetStatus], awaiting_status := Suc (awaiting_status s)\<rparr>"

text \<open>
  With \<^verbatim>\<open>repository_path\<close> missing, the assignment to \<^verbatim>\<open>repoPath.value\<close> stores the text
  \<^verbatim>\<open>undefined\<close> and \<^verbatim>\<open>getBasename\<close> throws; the \<^verbatim>\<open>catch\<close> block only logs.
\<close>

definition checkStatus_resume :: "status_body response \<Rightarrow> app \<Rightarrow> app" where
  "checkStatus_resume r s =
     (case r of
        NetworkError m \<Rightarrow> s
      | BadJson m \<Rightarrow> s
      | Json ok d \<Rightarrow>
          if repository_loaded d then
            (case repository_path d of
               None \<Rightarrow>
                 s\<lparr>repositoryLoaded := True, currentPath := None,
                   repoPath_value := lit ''undefined''\<rparr>
             | Some path \<Rightarrow>
                 enableChat
                  (updateStats (status_stats d)
                    (updateRepoStatus (lit ''loaded'') (lit ''Loaded: '' @ getBasename path)
                      (s\<lparr>repositoryLoaded := True, currentPath := Some path,
                         repoPath_value := path\<rparr>))))
          else s)"

subsection \<open>loadRepository\<close>

definition loadRepository :: "app \<Rightarrow> app" where
  "loadRepository s =
     (let path = trim (repoPath_value s) in
      if path = [] then showError (lit ''Please enter a repository path'') s
      else
        (let s1 = updateRepoStatus (lit ''loading'') (lit ''Scanning files...'')
                    (showLoading (lit ''Loading repository...'') s)
         in s1\<lparr>requests := requests s1 @ [PostLoad path],
               awaiting_load := awaiting_load s1 @ [path]\<rparr>))"

definition load_success_html :: "jsstr option \<Rightarrow> jsstr" where
  \<open>load_success_html msg =
     lit ''\<newline>            <p>'' @ [9989] @ lit '' <strong>Repository loaded successfully!</strong></p>\<newline>            <p>'' @
     (case msg of None \<Rightarrow> lit ''undefined'' | Some m \<Rightarrow> m) @
     lit ''</p>\<newline>            <p>You can now ask me anything about your code. Try questions like:</p>\<newline>            <ul>\<newline>                <li>What is the main purpose of this project?</li>\<newline>                <li>Explain the file structure</li>\<newline>                <li>How does the authentication work?</li>\<newline>            </ul>\<newline>        ''\<close>

definition load_failure_html :: "jsstr \<Rightarrow> jsstr" where
  \<open>load_failure_html msg =
     lit ''\<newline>            <p>'' @ [10060] @ lit '' <strong>Failed to load repository</strong></p>\<newline>            <p>'' @
     msg @
     lit ''</p>\<newline>            <p class="hint">Make sure the path exists and contains supported files (.py, .js, .ts, .java, .cpp, .md)</p>\<newline>        ''\<close>

text \<open>The \<^verbatim>\<open>try\<close> block of \<^verbatim>\<open>loadRepository\<close> from the response on.\<close>

definition load_try :: "jsstr \<Rightarrow> load_body response \<Rightarrow> app \<Rightarrow> jsstr option \<times> app" where
  "load_try path r s =
     (case r of
        NetworkError m \<Rightarrow> (Some m, s)
      | BadJson m \<Rightarrow> (Some m, s)
      | Json ok d \<Rightarrow>
          if \<not> ok then (Some (detail_or (load_detail d) (lit ''Failed to load repository'')), s)
          else
            (let s1 = updateRepoStatus (lit ''loaded'') (lit ''Loaded: '' @ getBasename path)
                        (s\<lparr>repositoryLoaded := True, currentPath := Some path\<rparr>)
             in case load_stats d of
                  None \<Rightarrow> (Some (cannot_read (lit ''vectors'')), s1)
                | Some vectors \<Rightarrow>
                    (None,
                     addMessage (lit ''assistant'') (load_success_html (load_message d))
                       (enableChat (updateStats vectors s1)))))"

definition loadRepository_resume :: "jsstr \<Rightarrow> load_body response \<Rightarrow> app \<Rightarrow> app" where
  "loadRepository_resume path r s =
     (case load_try path r s of
        (None, s1) \<Rightarrow> hideLoading s1
      | (Some m, s1) \<Rightarrow>
          hideLoading
            (addMessage (lit ''assistant'') (load_failure_html m)
              (updateRepoStatus (lit ''error'') m s1)))"

subsection \<open>sendMessage\<close>

text \<open>From \<^verbatim>\<open>// Add user message\<close> to \<^verbatim>\<open>disableSend()\<close>: what runs before the \<^verbatim>\<open>try\<close> block.\<close>

definition sendMessage_prelude :: "jsstr \<Rightarrow> app \<Rightarrow> jsstr \<times> app" where
  "sendMessage_prelude question s =
     (let s1 = addMessage (lit ''user'') (lit ''<p>'' @ escapeHtml question @ lit ''</p>'') s;
          s2 = s1\<lparr>messageInput_value := []\<rparr>;
          (typingId, s3) = showTypingIndicator s2
      in (typingId, disableSend (s3\<lparr>isLoading := True\<rparr>)))"

definition sendMessage :: "app \<Rightarrow> app" where
  "sendMessage s =
     (let question = trim (messageInput_value s) in
      if question = [] \<or> \<not> repositoryLoaded s \<or> isLoading s then s
      else
        (let (typingId, s1) = sendMessage_prelude question s
         in s1\<lparr>requests := requests s1 @ [PostAsk question 5],
               awaiting_ask := awaiting_ask s1 @ [typingId]\<rparr>))"

definition source_file_tag :: "jsstr \<Rightarrow> jsstr" where
  \<open>source_file_tag f = lit ''<span class="source-file-tag">'' @ escapeHtml f @ lit ''</span>''\<close>

definition source_files_html :: "jsstr list \<Rightarrow> jsstr" where
  \<open>source_files_html fs =
     lit ''\<newline>                <div class="source-files">\<newline>                    <div class="source-files-label">'' @ [55357, 56513] @ lit '' Source Files</div>\<newline>                    '' @
     concat (map source_file_tag fs) @
     lit ''\<newline>                </div>\<newline>            ''\<close>

definition ask_error_html :: "jsstr \<Rightarrow> jsstr" where
  \<open>ask_error_html msg =
     lit ''\<newline>            <p>'' @ [10060] @ lit '' <strong>Error</strong></p>\<newline>            <p>'' @
     escapeHtml msg @
     lit ''</p>\<newline>        ''\<close>

text \<open>
  The \<^verbatim>\<open>try\<close> block of \<^verbatim>\<open>sendMessage\<close> from the response on. With \<^verbatim>\<open>data.answer\<close> missing,
  \<^verbatim>\<open>formatAnswer\<close> throws at \<^verbatim>\<open>text.replace\<close>, after the typing indicator was removed.
\<close>

definition ask_try :: "jsstr \<Rightarrow> ask_body response \<Rightarrow> app \<Rightarrow> jsstr option \<times> app" where
  "ask_try typingId r s =
     (case r of
        NetworkError m \<Rightarrow> (Some m, s)
      | BadJson m \<Rightarrow> (Some m, s)
      | Json ok d \<Rightarrow>
          if \<not> ok then (Some (detail_or (ask_detail d) (lit ''Failed to get answer'')), s)
          else
            (let s1 = removeTypingIndicator typingId s
             in case answer d of
                  None \<Rightarrow> (Some (cannot_read (lit ''replace'')), s1)
                | Some a \<Rightarrow>
                    (let answerHtml = formatAnswer a;
                         answerHtml2 =
                           (case source_files d of
                              None \<Rightarrow> answerHtml
                            | Some fs \<Rightarrow>
                                if 0 < length fs then answerHtml @ source_files_html fs
                                else answerHtml)
                     in (None, addMessage (lit ''assistant'') answerHtml2 s1))))"

definition sendMessage_resume :: "jsstr \<Rightarrow> ask_body response \<Rightarrow> app \<Rightarrow> app" where
  "sendMessage_resume typingId r s =
     (let s2 =
        (case ask_try typingId r s of
           (None, s1) \<Rightarrow> s1
         | (Some m, s1) \<Rightarrow>
             addMessage (lit ''assistant'') (ask_error_html m)
               (removeTypingIndicator typingId s1))
      in enableSend (s2\<lparr>isLoading := False\<rparr>))"

subsection \<open>Quick action buttons\<close>

text \<open>\<^verbatim>\<open>btn.dataset.question\<close> is \<open>None\<close> for a button without the attribute.\<close>

definition quickBtn_click :: "jsstr option \<Rightarrow> app \<Rightarrow> app" where
  "quickBtn_click question s =
     (case question of
        None \<Rightarrow> s
      | Some q \<Rightarrow>
          if repositoryLoaded s \<and> q \<noteq> [] then sendMessage (s\<lparr>messageInput_value := q\<rparr>)
          else s)"

section \<open>Sessions\<close>

text \<open>
  What can happen to the page: the user edits the path or the message, asks for a load
  (the button, or Enter in the path), submits the message (the button, or Enter in the
  message), clicks a quick action button; a response to one of the suspended calls
  arrives; a timer that is due fires; time passes.
\<close>

datatype event =
    EditRepoPath jsstr
  | EditMessage jsstr
  | LoadRequested
  | SendRequested
  | QuickClicked "jsstr option"
  | StatusArrives "status_body response"
  | LoadArrives jsstr "load_body response"
  | AskArrives jsstr "ask_body response"
  | TimerFires nat
  | Tick nat

fun enabled :: "event \<Rightarrow> app \<Rightarrow> bool" where
  "enabled (StatusArrives r) s = (0 < awaiting_status s)"
| "enabled (LoadArrives path r) s = (path \<in> set (awaiting_load s))"
| "enabled (AskArrives typingId r) s = (typingId \<in> set (awaiting_ask s))"
| "enabled (TimerFires due) s = (due \<in> set (timers s) \<and> due \<le> clock s)"
| "enabled e s = True"

fun fire :: "event \<Rightarrow> app \<Rightarrow> app" where
  "fire (EditRepoPath v) s = s\<lparr>repoPath_value := v\<rparr>"
| "fire (EditMessage v) s = s\<lparr>messageInput_value := v\<rparr>"
| "fire LoadRequested s = loadRepository s"
| "fire SendRequested s = sendMessage s"
| "fire (QuickClicked q) s = quickBtn_click q s"
| "fire (StatusArrives r) s =
     checkStatus_resume r (s\<lparr>awaiting_status := awaiting_status s - 1\<rparr>)"
| "fire (LoadArrives path r) s =
     loadRepository_resume path r (s\<lparr>awaiting_load := remove1 path (awaiting_load s)\<rparr>)"
| "fire (AskArrives typingId r) s =
     sendMessage_resume typingId r (s\<lparr>awaiting_ask := remove1 typingId (awaiting_ask s)\<rparr>)"
| "fire (TimerFires due) s = revert_status (s\<lparr>timers := remove1 due (timers s)\<rparr>)"
| "fire (Tick d) s = s\<lparr>clock := clock s + d\<rparr>"

fun run :: "event list \<Rightarrow> app \<Rightarrow> app option" where
  "run [] s = Some s"
| "run (e # es) s = (if enabled e s then run es (fire e s) else None)"


definition boot :: "app \<Rightarrow> app" where
  "boot s = checkStatus s"

section \<open>Notions used in the statements\<close>



text \<open>The entries that \<open>addMessage\<close> appends for the two roles, in a browser with the
  parser \<open>p\<close>.\<close>

definition assistant_entry :: "(jsstr \<Rightarrow> jsstr list) \<Rightarrow> jsstr \<Rightarrow> entry" where
  "assistant_entry p content =
     \<lparr>className = lit ''message assistant'', elem_id = None,
      innerHTML = message_html avatar_svg content,
      inner_ids = p (message_html avatar_svg content)\<rparr>"

definition user_entry :: "(jsstr \<Rightarrow> jsstr list) \<Rightarrow> jsstr \<Rightarrow> entry" where
  "user_entry p content =
     \<lparr>className = lit ''message user'', elem_id = None,
      innerHTML = message_html (lit ''You'') content,
      inner_ids = p (message_html (lit ''You'') content)\<rparr>"



text \<open>The ids of the elements inside the entries of the message list.\<close>

definition nested_ids :: "entry list \<Rightarrow> jsstr list" where
  "nested_ids es = concat (map inner_ids es)"


text \<open>
  A parser to evaluate sessions with: it reads the attributes written as a space,
  \<^verbatim>\<open>id="\<close>, the id and a closing quote. On the markup of the sessions evaluated below (the
  templates of the client, which hold no id, texts without markup, and in one session an
  \<^verbatim>\<open>i\<close> element with an id) this is what a browser's parser gives.
\<close>

fun attribute_ids :: "jsstr \<Rightarrow> jsstr list" where
  "attribute_ids [] = []"
| "attribute_ids (c # cs) =
     (if take 5 (c # cs) = [32, 105, 100, 61, 34]
      then takeWhile (\<lambda>x. x \<noteq> 34) (drop 4 cs) # attribute_ids cs
      else attribute_ids cs)"

text \<open>A page to evaluate the operations on: nothing loaded, the chat controls disabled.\<close>

definition example_page :: app where
  "example_page =
     \<lparr>repositoryLoaded = False, isLoading = False, currentPath = None,
      repoPath_value = [], repoStatus_className = lit ''repo-status'',
      repoStatus_text = lit ''No repository loaded'', statsSection_hidden = True,
      statFiles = lit ''0'', statChunks = lit ''0'', statVectors = lit ''0'',
      messages = [], messageInput_value = [], messageInput_disabled = True,
      sendBtn_disabled = True, inputHint = lit ''Load a repository to start chatting'',
      loadingOverlay_hidden = True, loadingText = lit ''Loading...'', clock = 0,
      requests = [], timers = [], awaiting_status = 0, awaiting_load = [],
      awaiting_ask = [], ids_in_markup = attribute_ids\<rparr>"

text \<open>The session after a list of events, whether or not each was enabled.\<close>

definition after :: "event list \<Rightarrow> app \<Rightarrow> app" where
  "after es s = foldl (\<lambda>s e. fire e s) s es"

text \<open>
  Sessions to evaluate: one that loads a repository and submits a question, leaving the
  call suspended; one in which the user asks for a load with an empty path, then enters
  a path and asks again, up to the moment the timer of the first error is due; a
  response to a load that reports success without \<^verbatim>\<open>stats\<close>; a response to a load that
  reports the failure "path not found"; and a session in which the message of a
  successful load holds an element with the id that the placeholder of the next question
  gets, followed by that question and an answer to it.
\<close>

definition example_events :: "event list" where
  "example_events =
     [StatusArrives (NetworkError (lit ''Failed to fetch'')),
      EditRepoPath (lit ''./repo''),
      LoadRequested,
      LoadArrives (lit ''./repo'')
        (Json True \<lparr>load_detail = None, load_message = Some (lit ''Indexed 3 files''),
                    load_stats = Some (Some \<lparr>unique_files = Some (lit ''3''),
                                               total_chunks = Some (lit ''7''),
                                               total_vectors = Some (lit ''7'')\<rparr>)\<rparr>),
      EditMessage (lit ''What does main do?''),
      SendRequested]"

definition reversion_events :: "event list" where
  "reversion_events =
     [LoadRequested, EditRepoPath (lit ''./repo''), Tick 1000, LoadRequested, Tick 2000]"

definition stats_missing :: "load_body response" where
  "stats_missing =
     Json True \<lparr>load_detail = None, load_message = Some (lit ''done''), load_stats = None\<rparr>"

text \<open>The two sessions as they stand before the event of interest.\<close>

definition reversion_session :: app where
  "reversion_session = after reversion_events (boot example_page)"

definition load_pending_session :: app where
  "load_pending_session = after [EditRepoPath (lit ''./repo''), LoadRequested] (boot example_page)"

definition path_not_found :: "load_body response" where
  "path_not_found =
     Json False \<lparr>load_detail = Some (lit ''path not found''), load_message = None,
                 load_stats = None\<rparr>"





section \<open>Properties of the utility functions\<close>

subsection \<open>escapeHtml\<close>

lemma parse_text_escapeHtml: "parse_text (escapeHtml s) = s"
  by (induction s) (auto simp: escapeHtml_def escape_unit_def lit_def)

text \<open>
  C5. \<open>escapeHtml\<close> applied to \<^verbatim>\<open><b>&x</b>\<close> gives \<^verbatim>\<open>&lt;b&gt;&amp;x&lt;/b&gt;\<close>: every \<^verbatim>\<open><\<close>, \<^verbatim>\<open>>\<close>
  and \<^verbatim>\<open>&\<close> has become its character reference, no raw \<^verbatim>\<open><\<close> or \<^verbatim>\<open>>\<close> is left, and reading
  the result back as text gives the input again. The last holds for every string.
\<close>

theorem escapeHtml_example_round_trip:
  "escapeHtml (lit ''<b>&x</b>'') = lit ''&lt;b&gt;&amp;x&lt;/b&gt;''
   \<and> 60 \<notin> set (escapeHtml (lit ''<b>&x</b>''))
   \<and> 62 \<notin> set (escapeHtml (lit ''<b>&x</b>''))
   \<and> parse_text (escapeHtml (lit ''<b>&x</b>'')) = lit ''<b>&x</b>''
   \<and> (\<forall>s. parse_text (escapeHtml s) = s)"
  by (simp add: parse_text_escapeHtml) (simp add: escapeHtml_def escape_unit_def lit_def)

subsection \<open>formatAnswer\<close>

text \<open>
  C6, as the claim states it, fails: the fragment for \<^verbatim>\<open>**bold** and `code`\<close> is not wrapped
  in a paragraph, and does not even start with \<^verbatim>\<open><p>\<close>.
\<close>

theorem formatAnswer_example_not_wrapped:
  \<open>formatAnswer (lit ''**bold** and `code`'') \<noteq> lit ''<p><strong>bold</strong> and <code>code</code></p>''
   \<and> take 3 (formatAnswer (lit ''**bold** and `code`'')) \<noteq> lit ''<p>''\<close>
  by code_simp

text \<open>
  C6, amended. \<open>formatAnswer\<close> applied to \<^verbatim>\<open>**bold** and `code`\<close> returns
  \<^verbatim>\<open><strong>bold</strong> and <code>code</code>\<close>: "bold" in strong-emphasis markup, "code"
  in inline-code markup, and no paragraph around them, because the fragment already starts
  with \<^verbatim>\<open><\<close>. The paragraph is added where the fragment starts otherwise, as for
  \<^verbatim>\<open>a **bold** and `code`\<close>.
\<close>

theorem formatAnswer_example:
  \<open>formatAnswer (lit ''**bold** and `code`'') = lit ''<strong>bold</strong> and <code>code</code>''
   \<and> formatAnswer (lit ''a **bold** and `code`'') = lit ''<p>a <strong>bold</strong> and <code>code</code></p>''\<close>
  by code_simp
















section \<open>Properties of the session\<close>

lemma addMessage_assistant:
  "addMessage (lit ''assistant'') c s =
     s\<lparr>messages := messages s @ [assistant_entry (ids_in_markup s) c]\<rparr>"
  by (simp add: addMessage_def assistant_entry_def lit_def Let_def)

lemma addMessage_user:
  "addMessage (lit ''user'') c s =
     s\<lparr>messages := messages s @ [user_entry (ids_in_markup s) c]\<rparr>"
  by (simp add: addMessage_def user_entry_def lit_def Let_def)








lemma sendMessage_prelude_eq:
  "sendMessage_prelude q s =
     (lit ''typing-'' @ dec (clock s),
      s\<lparr>messages := messages s @
          [user_entry (ids_in_markup s) (lit ''<p>'' @ escapeHtml q @ lit ''</p>''),
           typing_entry (ids_in_markup s) (lit ''typing-'' @ dec (clock s))],
        messageInput_value := [], isLoading := True, sendBtn_disabled := True\<rparr>)"
  by (simp add: sendMessage_prelude_def addMessage_user showTypingIndicator_def disableSend_def Let_def)

lemma sendMessage_blocked:
  "trim (messageInput_value s) = [] \<or> \<not> repositoryLoaded s \<or> isLoading s \<Longrightarrow> sendMessage s = s"
  by (auto simp: sendMessage_def Let_def)

lemma sendMessage_passes:
  assumes "trim (messageInput_value s) \<noteq> []" and "repositoryLoaded s" and "\<not> isLoading s"
  shows "sendMessage s =
     s\<lparr>messages := messages s @
          [user_entry (ids_in_markup s)
             (lit ''<p>'' @ escapeHtml (trim (messageInput_value s)) @ lit ''</p>''),
           typing_entry (ids_in_markup s) (lit ''typing-'' @ dec (clock s))],
       messageInput_value := [], isLoading := True, sendBtn_disabled := True,
       requests := requests s @ [PostAsk (trim (messageInput_value s)) 5],
       awaiting_ask := awaiting_ask s @ [lit ''typing-'' @ dec (clock s)]\<rparr>"
  using assms by (simp add: sendMessage_def Let_def sendMessage_prelude_eq)

text \<open>What the operations leave alone.\<close>

lemma loadRepository_frame:
  "messages (loadRepository s) = messages s \<and> awaiting_ask (loadRepository s) = awaiting_ask s
   \<and> isLoading (loadRepository s) = isLoading s
   \<and> ids_in_markup (loadRepository s) = ids_in_markup s"
  by (simp add: loadRepository_def Let_def showError_def updateRepoStatus_def showLoading_def)

lemma checkStatus_resume_frame:
  "messages (checkStatus_resume r s) = messages s
   \<and> awaiting_ask (checkStatus_resume r s) = awaiting_ask s
   \<and> isLoading (checkStatus_resume r s) = isLoading s
   \<and> ids_in_markup (checkStatus_resume r s) = ids_in_markup s"
  by (simp add: checkStatus_resume_def enableChat_def updateStats_def updateRepoStatus_def
      split: response.split option.split)

lemma revert_status_frame:
  "messages (revert_status s) = messages s \<and> awaiting_ask (revert_status s) = awaiting_ask s
   \<and> isLoading (revert_status s) = isLoading s
   \<and> ids_in_markup (revert_status s) = ids_in_markup s"
  by (simp add: revert_status_def updateRepoStatus_def)

lemma load_try_frame:
  "load_try path r s = (t, s1) \<Longrightarrow>
     awaiting_ask s1 = awaiting_ask s \<and> isLoading s1 = isLoading s
     \<and> ids_in_markup s1 = ids_in_markup s
     \<and> (case t of
          None \<Rightarrow> \<exists>c. messages s1 = messages s @ [assistant_entry (ids_in_markup s) c]
        | Some m \<Rightarrow> messages s1 = messages s)"
  by (auto simp: load_try_def Let_def addMessage_assistant enableChat_def updateStats_def
      updateRepoStatus_def split: response.splits option.splits if_splits)

lemma loadRepository_resume_frame:
  "awaiting_ask (loadRepository_resume path r s) = awaiting_ask s
   \<and> isLoading (loadRepository_resume path r s) = isLoading s
   \<and> ids_in_markup (loadRepository_resume path r s) = ids_in_markup s
   \<and> (\<exists>c. messages (loadRepository_resume path r s) =
            messages s @ [assistant_entry (ids_in_markup s) c])"
proof (cases "load_try path r s")
  case (Pair t s1)
  from load_try_frame[OF Pair] show ?thesis
    by (cases t)
       (auto simp: loadRepository_resume_def Pair hideLoading_def addMessage_assistant
          updateRepoStatus_def)
qed

lemma ask_try_frame:
  "ask_try i r s = (t, s1) \<Longrightarrow>
     awaiting_ask s1 = awaiting_ask s \<and> ids_in_markup s1 = ids_in_markup s
     \<and> (case t of
          None \<Rightarrow> \<exists>c. messages s1 = remove_by_id i (messages s) @ [assistant_entry (ids_in_markup s) c]
        | Some m \<Rightarrow> messages s1 = messages s \<or> messages s1 = remove_by_id i (messages s))"
  by (auto simp: ask_try_def Let_def addMessage_assistant removeTypingIndicator_def
      split: response.splits option.splits if_splits)

lemma sendMessage_resume_frame:
  "awaiting_ask (sendMessage_resume i r s) = awaiting_ask s
   \<and> ids_in_markup (sendMessage_resume i r s) = ids_in_markup s
   \<and> \<not> isLoading (sendMessage_resume i r s)
   \<and> \<not> sendBtn_disabled (sendMessage_resume i r s)"
proof (cases "ask_try i r s")
  case (Pair t s1)
  from ask_try_frame[OF Pair] show ?thesis
    by (cases t)
       (auto simp: sendMessage_resume_def Pair enableSend_def addMessage_assistant
          removeTypingIndicator_def)
qed

lemma sendMessage_frame:
  "ids_in_markup (sendMessage s) = ids_in_markup s"
proof (cases "trim (messageInput_value s) = [] \<or> \<not> repositoryLoaded s \<or> isLoading s")
  case True
  then show ?thesis by (simp add: sendMessage_blocked)
next
  case False
  then show ?thesis by (simp add: sendMessage_passes)
qed

lemma fire_parser: "ids_in_markup (fire e s) = ids_in_markup s"
  by (cases e)
     (simp_all add: loadRepository_frame checkStatus_resume_frame revert_status_frame
        loadRepository_resume_frame sendMessage_resume_frame sendMessage_frame
        quickBtn_click_def split: option.split)


subsection \<open>The invariant\<close>






subsection \<open>Evaluating sessions\<close>

lemma trim_examples:
  "trim (lit ''./repo'') = lit ''./repo''"
  "trim (lit ''What does main do?'') = lit ''What does main do?''"
  "trim (lit ''hello'') = lit ''hello''"
  "trim (lit '' hello '') = lit ''hello''"
  "trim (lit ''  '') = []"
  "trim [] = []"
  by (simp_all add: trim_def is_space_def lit_def)

lemma lit_nonempty:
  "lit ''./repo'' \<noteq> []" "lit ''What does main do?'' \<noteq> []" "lit ''hello'' \<noteq> []"
  by (simp_all add: lit_def)

lemma typing_0: "lit ''typing-'' @ dec 0 = lit ''typing-0''"
  by (simp add: dec.simps lit_def)



text \<open>The example parser on the markup of the sessions.\<close>

lemma ids_typing: "attribute_ids typing_html = []"
  by (simp add: typing_html_def lit_def)

lemma ids_loaded:
  "attribute_ids (message_html avatar_svg (load_success_html (Some (lit ''Indexed 3 files'')))) = []"
  by (simp add: message_html_def avatar_svg_def load_success_html_def lit_def)

lemma ids_question:
  "attribute_ids (message_html (lit ''You'')
     (lit ''<p>'' @ escapeHtml (lit ''What does main do?'') @ lit ''</p>'')) = []"
  by (simp add: message_html_def escapeHtml_def escape_unit_def lit_def)




lemmas operation_defs =
  boot_def checkStatus_def checkStatus_resume_def loadRepository_def loadRepository_resume_def
  load_try_def sendMessage_def sendMessage_prelude_eq sendMessage_resume_def ask_try_def
  quickBtn_click_def showError_def revert_status_def updateRepoStatus_def updateStats_def
  enableChat_def enableSend_def disableSend_def showLoading_def hideLoading_def
  addMessage_assistant addMessage_user removeTypingIndicator_def

lemma example_session:
  "\<exists>s. run example_events (boot example_page) = Some s
       \<and> awaiting_ask s = [lit ''typing-0''] \<and> isLoading s \<and> sendBtn_disabled s
       \<and> repositoryLoaded s \<and> nested_ids (messages s) = []
       \<and> ids_in_markup s = attribute_ids"
  by (simp add: example_events_def example_page_def operation_defs trim_examples lit_nonempty
      typing_0 Let_def nested_ids_def assistant_entry_def user_entry_def typing_entry_def
      ids_typing ids_loaded ids_question)







subsection \<open>sendMessage\<close>

text \<open>
  C1. Unless a repository is loaded, no question is in flight and the message is not empty
  after trimming, \<open>sendMessage\<close> returns the session as it found it: no call is issued,
  no message is appended, no field of the \<^verbatim>\<open>state\<close> object or of the page changes, and
  nothing is left suspended. Where the three conditions hold, it issues the call with the
  trimmed question and \<^verbatim>\<open>top_k\<close> 5.
\<close>

theorem sendMessage_noop_unless_ready:
  "(\<not> (repositoryLoaded s \<and> \<not> isLoading s \<and> trim (messageInput_value s) \<noteq> []) \<longrightarrow>
      sendMessage s = s \<and> fire SendRequested s = s)
   \<and> (repositoryLoaded s \<and> \<not> isLoading s \<and> trim (messageInput_value s) \<noteq> [] \<longrightarrow>
      requests (sendMessage s) = requests s @ [PostAsk (trim (messageInput_value s)) 5])"
proof (intro conjI impI)
  assume "\<not> (repositoryLoaded s \<and> \<not> isLoading s \<and> trim (messageInput_value s) \<noteq> [])"
  then have b: "trim (messageInput_value s) = [] \<or> \<not> repositoryLoaded s \<or> isLoading s"
    by auto
  show "sendMessage s = s" by (rule sendMessage_blocked[OF b])
  then show "fire SendRequested s = s" by simp
next
  assume "repositoryLoaded s \<and> \<not> isLoading s \<and> trim (messageInput_value s) \<noteq> []"
  then show "requests (sendMessage s) = requests s @ [PostAsk (trim (messageInput_value s)) 5]"
    by (simp add: sendMessage_passes)
qed

theorem sendMessage_noop_unless_ready_witness:
  "sendMessage (example_page\<lparr>messageInput_value := lit ''hello''\<rparr>)
     = example_page\<lparr>messageInput_value := lit ''hello''\<rparr>
   \<and> sendMessage (example_page\<lparr>repositoryLoaded := True, messageInput_value := lit ''  ''\<rparr>)
     = example_page\<lparr>repositoryLoaded := True, messageInput_value := lit ''  ''\<rparr>
   \<and> requests (sendMessage (example_page\<lparr>repositoryLoaded := True, messageInput_value := lit '' hello ''\<rparr>))
     = [PostAsk (lit ''hello'') 5]"
  using sendMessage_noop_unless_ready[of "example_page\<lparr>messageInput_value := lit ''hello''\<rparr>"]
    sendMessage_noop_unless_ready[of "example_page\<lparr>repositoryLoaded := True, messageInput_value := lit ''  ''\<rparr>"]
    sendMessage_noop_unless_ready[of "example_page\<lparr>repositoryLoaded := True, messageInput_value := lit '' hello ''\<rparr>"]
  by (simp add: trim_examples lit_nonempty example_page_def)

text \<open>
  C3. Whatever the call gives (an answer, a failure that the service reports, a rejected
  \<^verbatim>\<open>fetch\<close>, a body that is no JSON), once \<open>sendMessage\<close> has resumed \<open>isLoading\<close> is
  false and the submit button is enabled.
\<close>

theorem ask_always_restores_controls:
  "\<not> isLoading (sendMessage_resume i r s) \<and> \<not> sendBtn_disabled (sendMessage_resume i r s)
   \<and> \<not> isLoading (fire (AskArrives i r) s) \<and> \<not> sendBtn_disabled (fire (AskArrives i r) s)"
  using sendMessage_resume_frame[of i r s]
    sendMessage_resume_frame[of i r "s\<lparr>awaiting_ask := remove1 i (awaiting_ask s)\<rparr>"]
  by simp

theorem ask_always_restores_controls_witness:
  "\<exists>s. run example_events (boot example_page) = Some s \<and> isLoading s \<and> sendBtn_disabled s
     \<and> \<not> isLoading (fire (AskArrives (lit ''typing-0'') (NetworkError (lit ''Failed to fetch''))) s)
     \<and> \<not> sendBtn_disabled (fire (AskArrives (lit ''typing-0'') (NetworkError (lit ''Failed to fetch''))) s)"
proof -
  from example_session obtain s where r: "run example_events (boot example_page) = Some s"
    and l: "isLoading s" "sendBtn_disabled s"
    by blast
  from r l ask_always_restores_controls[of "lit ''typing-0''" "NetworkError (lit ''Failed to fetch'')" s]
  show ?thesis by blast
qed






subsection \<open>Quick action buttons\<close>

text \<open>
  C9. With a repository loaded, clicking a quick action button that carries the non-empty
  question \<open>q\<close> leaves exactly the session that entering \<open>q\<close> in the message input and
  submitting it leaves (the same entries, the same call issued, the same fields, the same
  suspended call); for every \<open>q\<close>, the empty string included, the two sessions agree on
  everything but the content of the message input; and with no repository loaded the
  click changes nothing.
\<close>

theorem quick_button_same_as_typed:
  "(repositoryLoaded s \<and> q \<noteq> [] \<longrightarrow>
      fire (QuickClicked (Some q)) s = fire SendRequested (fire (EditMessage q) s))
   \<and> (repositoryLoaded s \<longrightarrow>
        (fire (QuickClicked (Some q)) s)\<lparr>messageInput_value := v\<rparr>
          = (fire SendRequested (fire (EditMessage q) s))\<lparr>messageInput_value := v\<rparr>)
   \<and> (\<not> repositoryLoaded s \<longrightarrow> fire (QuickClicked (Some q)) s = s)"
proof (intro conjI impI)
  assume "repositoryLoaded s \<and> q \<noteq> []"
  then show "fire (QuickClicked (Some q)) s = fire SendRequested (fire (EditMessage q) s)"
    by (simp add: quickBtn_click_def)
next
  assume l: "repositoryLoaded s"
  show "(fire (QuickClicked (Some q)) s)\<lparr>messageInput_value := v\<rparr>
          = (fire SendRequested (fire (EditMessage q) s))\<lparr>messageInput_value := v\<rparr>"
  proof (cases "q = []")
    case True
    have "sendMessage (s\<lparr>messageInput_value := []\<rparr>) = s\<lparr>messageInput_value := []\<rparr>"
      by (rule sendMessage_blocked) (simp add: trim_examples)
    with True l show ?thesis by (simp add: quickBtn_click_def)
  next
    case False
    with l show ?thesis by (simp add: quickBtn_click_def)
  qed
next
  assume "\<not> repositoryLoaded s"
  then show "fire (QuickClicked (Some q)) s = s" by (simp add: quickBtn_click_def)
qed

theorem quick_button_same_as_typed_witness:
  "fire (QuickClicked (Some (lit ''hello''))) (example_page\<lparr>repositoryLoaded := True\<rparr>)
     = fire SendRequested (fire (EditMessage (lit ''hello'')) (example_page\<lparr>repositoryLoaded := True\<rparr>))
   \<and> requests (fire (QuickClicked (Some (lit ''hello''))) (example_page\<lparr>repositoryLoaded := True\<rparr>))
     = [PostAsk (lit ''hello'') 5]
   \<and> fire (QuickClicked (Some (lit ''hello''))) example_page = example_page"
proof -
  have 1: "repositoryLoaded (example_page\<lparr>repositoryLoaded := True\<rparr>)" by simp
  have 2: "\<not> repositoryLoaded example_page" by (simp add: example_page_def)
  have 3: "requests (fire (QuickClicked (Some (lit ''hello''))) (example_page\<lparr>repositoryLoaded := True\<rparr>))
     = [PostAsk (lit ''hello'') 5]"
    by (simp add: example_page_def operation_defs trim_examples lit_nonempty Let_def)
  from quick_button_same_as_typed[of "example_page\<lparr>repositoryLoaded := True\<rparr>" "lit ''hello''"]
    quick_button_same_as_typed[of example_page "lit ''hello''"] 1 2 3 lit_nonempty(3)
  show ?thesis by blast
qed

subsection \<open>Failure messages\<close>

lemma escape_unit_length: "1 \<le> length (escape_unit c)"
  by (simp add: escape_unit_def lit_def)

lemma escapeHtml_length: "length s \<le> length (escapeHtml s)"
proof (induction s)
  case Nil
  then show ?case by (simp add: escapeHtml_def)
next
  case (Cons c s)
  from escape_unit_length[of c] Cons show ?case by (simp add: escapeHtml_def)
qed

lemma escapeHtml_longer:
  "c \<in> set s \<Longrightarrow> c \<in> {38, 60, 62, 160} \<Longrightarrow> length s < length (escapeHtml s)"
proof (induction s)
  case Nil
  then show ?case by simp
next
  case (Cons x s)
  have e: "escapeHtml (x # s) = escape_unit x @ escapeHtml s" by (simp add: escapeHtml_def)
  show ?case
  proof (cases "x = c")
    case True
    with Cons.prems(2) have "2 \<le> length (escape_unit x)"
      by (auto simp: escape_unit_def lit_def)
    with escapeHtml_length[of s] show ?thesis by (simp add: e)
  next
    case False
    with Cons have "length s < length (escapeHtml s)" by simp
    with escape_unit_length[of x] show ?thesis by (simp add: e)
  qed
qed

lemma load_failure_message:
  "load_try path r s = (Some m, s1) \<Longrightarrow>
     messages (loadRepository_resume path r s) = messages s1 @ [assistant_entry (ids_in_markup s1) (load_failure_html m)]"
  by (simp add: loadRepository_resume_def hideLoading_def addMessage_assistant updateRepoStatus_def)

lemma ask_failure_message:
  "ask_try i r s = (Some m, s) \<Longrightarrow>
     messages (sendMessage_resume i r s) = remove_by_id i (messages s) @ [assistant_entry (ids_in_markup s) (ask_error_html m)]"
  by (simp add: sendMessage_resume_def enableSend_def addMessage_assistant removeTypingIndicator_def)

text \<open>
  C10. For the same failure reason \<open>m\<close> (the \<^verbatim>\<open>detail\<close> of a non-2xx response, or the message
  of a rejected \<^verbatim>\<open>fetch\<close>), a failed load appends an assistant message whose markup holds
  \<open>m\<close> as it is, and a failed ask appends one whose markup holds \<open>escapeHtml m\<close>; the two
  differ whenever \<open>m\<close> holds \<^verbatim>\<open>&\<close>, \<^verbatim>\<open><\<close>, \<^verbatim>\<open>>\<close> or U+00A0.
\<close>

theorem failure_reason_escaped_for_ask_only:
  assumes "m \<noteq> []" and "load_detail dl = Some m" and "ask_detail da = Some m"
  shows \<open>messages (loadRepository_resume path (Json False dl) s)
           = messages s @ [assistant_entry (ids_in_markup s) (load_failure_html m)]
       \<and> messages (loadRepository_resume path (NetworkError m) s)
           = messages s @ [assistant_entry (ids_in_markup s) (load_failure_html m)]
       \<and> messages (sendMessage_resume i (Json False da) s)
           = remove_by_id i (messages s) @ [assistant_entry (ids_in_markup s) (ask_error_html m)]
       \<and> messages (sendMessage_resume i (NetworkError m) s)
           = remove_by_id i (messages s) @ [assistant_entry (ids_in_markup s) (ask_error_html m)]
       \<and> load_failure_html m =
           lit ''\<newline>            <p>'' @ [10060] @ lit '' <strong>Failed to load repository</strong></p>\<newline>            <p>'' @
           m @
           lit ''</p>\<newline>            <p class="hint">Make sure the path exists and contains supported files (.py, .js, .ts, .java, .cpp, .md)</p>\<newline>        ''
       \<and> ask_error_html m =
           lit ''\<newline>            <p>'' @ [10060] @ lit '' <strong>Error</strong></p>\<newline>            <p>'' @
           escapeHtml m @
           lit ''</p>\<newline>        ''
       \<and> (set m \<inter> {38, 60, 62, 160} \<noteq> {} \<longrightarrow> escapeHtml m \<noteq> m)\<close>
proof -
  have l1: "load_try path (Json False dl) s = (Some m, s)"
    using assms by (simp add: load_try_def detail_or_def)
  have l2: "load_try path (NetworkError m) s = (Some m, s)"
    by (simp add: load_try_def)
  have a1: "ask_try i (Json False da) s = (Some m, s)"
    using assms by (simp add: ask_try_def detail_or_def)
  have a2: "ask_try i (NetworkError m) s = (Some m, s)"
    by (simp add: ask_try_def)
  have e: "escapeHtml m \<noteq> m" if "set m \<inter> {38, 60, 62, 160} \<noteq> {}"
  proof -
    from that obtain c where "c \<in> set m" "c \<in> {38, 60, 62, 160}" by blast
    from escapeHtml_longer[OF this] show ?thesis by auto
  qed
  from load_failure_message[OF l1] load_failure_message[OF l2]
    ask_failure_message[OF a1] ask_failure_message[OF a2] e
  show ?thesis
    by (simp add: load_failure_html_def ask_error_html_def)
qed

theorem failure_reason_escaped_for_ask_only_witness:
  "messages (loadRepository_resume (lit ''./repo'')
       (Json False \<lparr>load_detail = Some (lit ''<b>no</b>''), load_message = None, load_stats = None\<rparr>)
       example_page)
     = [assistant_entry attribute_ids (load_failure_html (lit ''<b>no</b>''))]
   \<and> messages (sendMessage_resume (lit ''typing-0'')
       (Json False \<lparr>ask_detail = Some (lit ''<b>no</b>''), answer = None, source_files = None\<rparr>)
       example_page)
     = [assistant_entry attribute_ids (ask_error_html (lit ''<b>no</b>''))]
   \<and> escapeHtml (lit ''<b>no</b>'') = lit ''&lt;b&gt;no&lt;/b&gt;''
   \<and> escapeHtml (lit ''<b>no</b>'') \<noteq> lit ''<b>no</b>''"
proof -
  let ?dl = "\<lparr>load_detail = Some (lit ''<b>no</b>''), load_message = None, load_stats = None\<rparr>"
  let ?da = "\<lparr>ask_detail = Some (lit ''<b>no</b>''), answer = None, source_files = None\<rparr>"
  have n: "lit ''<b>no</b>'' \<noteq> []" by (simp add: lit_def)
  have dl: "load_detail ?dl = Some (lit ''<b>no</b>'')" by simp
  have da: "ask_detail ?da = Some (lit ''<b>no</b>'')" by simp
  have c: "set (lit ''<b>no</b>'') \<inter> {38, 60, 62, 160} \<noteq> {}" by (simp add: lit_def)
  have m: "messages example_page = []" "ids_in_markup example_page = attribute_ids"
    by (simp_all add: example_page_def)
  have v: "escapeHtml (lit ''<b>no</b>'') = lit ''&lt;b&gt;no&lt;/b&gt;''"
    by (simp add: escapeHtml_def escape_unit_def lit_def)
  note T = failure_reason_escaped_for_ask_only[OF n dl da, of "lit ''./repo''" example_page "lit ''typing-0''"]
  from T have 1: "messages (loadRepository_resume (lit ''./repo'') (Json False ?dl) example_page)
     = messages example_page
       @ [assistant_entry (ids_in_markup example_page) (load_failure_html (lit ''<b>no</b>''))]"
    by (rule conjunct1)
  from T have 2: "messages (sendMessage_resume (lit ''typing-0'') (Json False ?da) example_page)
     = remove_by_id (lit ''typing-0'') (messages example_page)
       @ [assistant_entry (ids_in_markup example_page) (ask_error_html (lit ''<b>no</b>''))]"
    by blast
  from T c have 3: "escapeHtml (lit ''<b>no</b>'') \<noteq> lit ''<b>no</b>''"
    by blast
  from 1 2 have "messages (loadRepository_resume (lit ''./repo'') (Json False ?dl) example_page)
     = [assistant_entry attribute_ids (load_failure_html (lit ''<b>no</b>''))]"
    and "messages (sendMessage_resume (lit ''typing-0'') (Json False ?da) example_page)
     = [assistant_entry attribute_ids (ask_error_html (lit ''<b>no</b>''))]"
    by (simp_all add: m)
  with 3 v show ?thesis by blast
qed

subsection \<open>The timed reversion of the status\<close>

lemma status_classes:
  "lit ''repo-status '' @ lit ''error'' = lit ''repo-status error''"
  "lit ''repo-status '' @ lit ''loading'' = lit ''repo-status loading''"
  "lit ''repo-status '' @ lit ''loaded'' = lit ''repo-status loaded''"
  "lit ''repo-status '' @ [] = lit ''repo-status ''"
  by (simp_all add: lit_def)

lemma sendMessage_timers: "timers (sendMessage s) = timers s"
proof (cases "trim (messageInput_value s) = [] \<or> \<not> repositoryLoaded s \<or> isLoading s")
  case True
  then show ?thesis by (simp add: sendMessage_blocked)
next
  case False
  then show ?thesis by (simp add: sendMessage_passes)
qed

lemma loadRepository_timers: "set (timers s) \<subseteq> set (timers (loadRepository s))"
  by (auto simp: loadRepository_def Let_def showError_def updateRepoStatus_def showLoading_def)

lemma checkStatus_resume_timers: "timers (checkStatus_resume r s) = timers s"
  by (simp add: checkStatus_resume_def enableChat_def updateStats_def updateRepoStatus_def
      split: response.split option.split)

lemma loadRepository_resume_timers: "timers (loadRepository_resume path r s) = timers s"
  by (simp add: loadRepository_resume_def load_try_def hideLoading_def addMessage_assistant
      updateRepoStatus_def enableChat_def updateStats_def Let_def
      split: response.split option.split prod.split)

lemma sendMessage_resume_timers: "timers (sendMessage_resume i r s) = timers s"
  by (simp add: sendMessage_resume_def ask_try_def enableSend_def addMessage_assistant
      removeTypingIndicator_def Let_def split: response.split option.split prod.split)

lemma pending_timer_survives:
  assumes "\<forall>d. e \<noteq> TimerFires d" and "due \<in> set (timers s)"
  shows "due \<in> set (timers (fire e s))"
proof (cases e)
  case LoadRequested
  with loadRepository_timers[of s] assms(2) show ?thesis by auto
next
  case (QuickClicked q)
  with assms(2) show ?thesis
    by (simp add: quickBtn_click_def sendMessage_timers split: option.split)
next
  case (TimerFires d)
  with assms(1) show ?thesis by simp
qed (use assms(2) in \<open>simp_all add: sendMessage_timers checkStatus_resume_timers
      loadRepository_resume_timers sendMessage_resume_timers\<close>)

lemma load_failure_status:
  "load_try path r s = (Some m, s1) \<Longrightarrow>
     repoStatus_className (loadRepository_resume path r s) = lit ''repo-status error''
     \<and> repoStatus_text (loadRepository_resume path r s) = m"
  by (simp add: loadRepository_resume_def hideLoading_def addMessage_assistant
      updateRepoStatus_def status_classes)

text \<open>
  C8, amended. Only the error for an empty path schedules a reversion: \<open>loadRepository\<close>
  calls \<open>showError\<close> for it, which shows the message as an error and schedules the
  reversion 3000 ms ahead, whether or not a repository is loaded. The error of a failed
  load (a rejected \<^verbatim>\<open>fetch\<close>, a non-2xx response) is shown as the status too, but no response
  to a load schedules anything, so that status stays until another one is set. When the
  timer fires, the reversion changes nothing if a repository is loaded at that moment, and
  sets the neutral status "No repository loaded" if none is; firing it twice is the same
  as firing it once. It is never cancelled: every event other than the firing of a timer
  leaves every pending timer pending.
\<close>

theorem status_reversion_never_cancelled:
  "timers (showError m s) = timers s @ [clock s + 3000]
   \<and> repoStatus_className (showError m s) = lit ''repo-status error''
   \<and> repoStatus_text (showError m s) = m
   \<and> (trim (repoPath_value s) = [] \<longrightarrow>
        fire LoadRequested s = showError (lit ''Please enter a repository path'') s)
   \<and> timers (loadRepository_resume path r s) = timers s
   \<and> repoStatus_className (loadRepository_resume path (NetworkError m) s) = lit ''repo-status error''
   \<and> repoStatus_text (loadRepository_resume path (NetworkError m) s) = m
   \<and> repoStatus_className (loadRepository_resume path (Json False d) s) = lit ''repo-status error''
   \<and> repoStatus_text (loadRepository_resume path (Json False d) s)
       = detail_or (load_detail d) (lit ''Failed to load repository'')
   \<and> (repositoryLoaded s \<longrightarrow> revert_status s = s)
   \<and> (\<not> repositoryLoaded s \<longrightarrow>
        repoStatus_className (revert_status s) = lit ''repo-status ''
        \<and> repoStatus_text (revert_status s) = lit ''No repository loaded'')
   \<and> revert_status (revert_status s) = revert_status s
   \<and> (\<forall>e due. (\<forall>d. e \<noteq> TimerFires d) \<and> due \<in> set (timers s) \<longrightarrow>
         due \<in> set (timers (fire e s)))"
proof -
  have 1: "timers (showError m s) = timers s @ [clock s + 3000]"
    and 2: "repoStatus_className (showError m s) = lit ''repo-status error''"
    and 3: "repoStatus_text (showError m s) = m"
    by (simp_all add: showError_def updateRepoStatus_def status_classes)
  have 4: "trim (repoPath_value s) = [] \<longrightarrow>
        fire LoadRequested s = showError (lit ''Please enter a repository path'') s"
    by (simp add: loadRepository_def)
  have 5: "repositoryLoaded s \<longrightarrow> revert_status s = s"
    by (simp add: revert_status_def)
  have 6: "\<not> repositoryLoaded s \<longrightarrow>
        repoStatus_className (revert_status s) = lit ''repo-status ''
        \<and> repoStatus_text (revert_status s) = lit ''No repository loaded''"
    by (simp add: revert_status_def updateRepoStatus_def status_classes)
  have 7: "revert_status (revert_status s) = revert_status s"
    by (simp add: revert_status_def updateRepoStatus_def)
  have 8: "\<forall>e due. (\<forall>d. e \<noteq> TimerFires d) \<and> due \<in> set (timers s) \<longrightarrow>
         due \<in> set (timers (fire e s))"
    using pending_timer_survives by blast
  have 9: "timers (loadRepository_resume path r s) = timers s"
    by (rule loadRepository_resume_timers)
  have "load_try path (NetworkError m) s = (Some m, s)"
    by (simp add: load_try_def)
  from load_failure_status[OF this]
  have 10: "repoStatus_className (loadRepository_resume path (NetworkError m) s) = lit ''repo-status error''"
    and 11: "repoStatus_text (loadRepository_resume path (NetworkError m) s) = m"
    by simp_all
  have "load_try path (Json False d) s
          = (Some (detail_or (load_detail d) (lit ''Failed to load repository'')), s)"
    by (simp add: load_try_def)
  from load_failure_status[OF this]
  have 12: "repoStatus_className (loadRepository_resume path (Json False d) s) = lit ''repo-status error''"
    and 13: "repoStatus_text (loadRepository_resume path (Json False d) s)
       = detail_or (load_detail d) (lit ''Failed to load repository'')"
    by simp_all
  from 1 2 3 4 5 6 7 8 9 10 11 12 13 show ?thesis by blast
qed

theorem status_reversion_never_cancelled_witness:
  "timers (fire LoadRequested example_page) = [3000]
   \<and> repoStatus_text (fire LoadRequested example_page) = lit ''Please enter a repository path''
   \<and> repoStatus_text (revert_status (fire LoadRequested example_page)) = lit ''No repository loaded''
   \<and> revert_status (example_page\<lparr>repositoryLoaded := True\<rparr>) = example_page\<lparr>repositoryLoaded := True\<rparr>
   \<and> 3000 \<in> set (timers (fire (EditRepoPath (lit ''./repo'')) (fire LoadRequested example_page)))
   \<and> timers (loadRepository_resume (lit ''./repo'') path_not_found example_page) = []"
proof -
  let ?s = "fire LoadRequested example_page"
  have t: "trim (repoPath_value example_page) = []"
    by (simp add: example_page_def trim_examples)
  have e: "loadRepository example_page = showError (lit ''Please enter a repository path'') example_page"
    using status_reversion_never_cancelled[of "[]" example_page] t by simp
  have c: "timers example_page = []" "clock example_page = 0" "\<not> repositoryLoaded example_page"
    by (simp_all add: example_page_def)
  have n: "\<not> repositoryLoaded ?s"
    by (simp add: e showError_def updateRepoStatus_def c)
  have 1: "timers ?s = [3000]"
    using status_reversion_never_cancelled[of "lit ''Please enter a repository path''" example_page]
    by (simp add: e c)
  have 2: "repoStatus_text ?s = lit ''Please enter a repository path''"
    using status_reversion_never_cancelled[of "lit ''Please enter a repository path''" example_page]
    by (simp add: e)
  have 3: "repoStatus_text (revert_status ?s) = lit ''No repository loaded''"
    using status_reversion_never_cancelled[of _ ?s] n by blast
  have 4: "revert_status (example_page\<lparr>repositoryLoaded := True\<rparr>) = example_page\<lparr>repositoryLoaded := True\<rparr>"
    using status_reversion_never_cancelled[of _ "example_page\<lparr>repositoryLoaded := True\<rparr>"] by simp
  have "\<forall>d. EditRepoPath (lit ''./repo'') \<noteq> TimerFires d" by simp
  moreover have "3000 \<in> set (timers ?s)" using 1 by simp
  ultimately have 5: "3000 \<in> set (timers (fire (EditRepoPath (lit ''./repo'')) ?s))"
    using status_reversion_never_cancelled[of _ ?s] by blast
  have 6: "timers (loadRepository_resume (lit ''./repo'') path_not_found example_page) = []"
    using status_reversion_never_cancelled[of _ example_page "lit ''./repo''" path_not_found] c
    by simp
  from 1 2 3 4 5 6 show ?thesis by blast
qed

text \<open>
  C8, as the claim states it, fails twice. First, with no repository loaded the load of
  \<^verbatim>\<open>./repo\<close> fails with "path not found": the error is shown as the status, and no
  reversion is scheduled. Second, the user asks for a load with an empty path at time 0
  (\<open>showError\<close>, timer due at 3000), enters a path and asks again at 1000 (status
  "loading", call issued). At 3000 the timer of the first error is still pending and
  enabled, and when it fires it replaces the status of the load in flight by the neutral
  one: the later action neither cancelled the reversion nor made it harmless.
\<close>

theorem error_status_not_reverted_or_reversion_not_cancelled:
  "run [EditRepoPath (lit ''./repo''), LoadRequested] (boot example_page) = Some load_pending_session
   \<and> \<not> repositoryLoaded load_pending_session
   \<and> timers load_pending_session = []
   \<and> enabled (LoadArrives (lit ''./repo'') path_not_found) load_pending_session
   \<and> \<not> repositoryLoaded (fire (LoadArrives (lit ''./repo'') path_not_found) load_pending_session)
   \<and> repoStatus_className (fire (LoadArrives (lit ''./repo'') path_not_found) load_pending_session)
       = lit ''repo-status error''
   \<and> repoStatus_text (fire (LoadArrives (lit ''./repo'') path_not_found) load_pending_session)
       = lit ''path not found''
   \<and> timers (fire (LoadArrives (lit ''./repo'') path_not_found) load_pending_session) = []
   \<and> run reversion_events (boot example_page) = Some reversion_session
   \<and> timers reversion_session = [3000]
   \<and> enabled (TimerFires 3000) reversion_session
   \<and> awaiting_load reversion_session = [lit ''./repo'']
   \<and> repoStatus_className reversion_session = lit ''repo-status loading''
   \<and> repoStatus_text reversion_session = lit ''Scanning files...''
   \<and> repoStatus_className (fire (TimerFires 3000) reversion_session) = lit ''repo-status ''
   \<and> repoStatus_text (fire (TimerFires 3000) reversion_session) = lit ''No repository loaded''
   \<and> awaiting_load (fire (TimerFires 3000) reversion_session) = [lit ''./repo'']"
  by (simp add: reversion_session_def after_def reversion_events_def example_page_def
      load_pending_session_def path_not_found_def detail_or_def
      operation_defs trim_examples lit_nonempty status_classes Let_def)
     (simp add: lit_def)

subsection \<open>loadRepository\<close>

lemma load_success_enables_chat:
  assumes "load_stats d = Some v"
  shows "repositoryLoaded (loadRepository_resume path (Json True d) s)
       \<and> currentPath (loadRepository_resume path (Json True d) s) = Some path
       \<and> \<not> messageInput_disabled (loadRepository_resume path (Json True d) s)
       \<and> \<not> sendBtn_disabled (loadRepository_resume path (Json True d) s)
       \<and> repoStatus_className (loadRepository_resume path (Json True d) s) = lit ''repo-status loaded''"
  using assms
  by (simp add: loadRepository_resume_def load_try_def hideLoading_def addMessage_assistant
      updateRepoStatus_def enableChat_def updateStats_def Let_def status_classes
      split: option.split)

lemma load_failure_keeps_session:
  assumes "r = NetworkError m \<or> r = BadJson m \<or> r = Json False d"
  shows "repositoryLoaded (loadRepository_resume path r s) = repositoryLoaded s
       \<and> currentPath (loadRepository_resume path r s) = currentPath s
       \<and> messageInput_disabled (loadRepository_resume path r s) = messageInput_disabled s
       \<and> repoStatus_className (loadRepository_resume path r s) = lit ''repo-status error''"
  using assms
  by (auto simp: loadRepository_resume_def load_try_def hideLoading_def addMessage_assistant
      updateRepoStatus_def status_classes)

text \<open>
  C4 at a response that reports success but has no \<^verbatim>\<open>stats\<close>: \<^verbatim>\<open>data.stats.vectors\<close> throws
  after \<^verbatim>\<open>state.repositoryLoaded\<close> and \<^verbatim>\<open>state.currentPath\<close> have been assigned. The load ends
  in the \<^verbatim>\<open>catch\<close> block, with the error status and the message "Failed to load
  repository", and yet the session counts as loaded, with the chat controls still
  disabled. The two lemmas before it are the cases in which the claim holds.
\<close>

theorem load_without_stats_sets_loaded_and_reports_failure:
  "run [EditRepoPath (lit ''./repo''), LoadRequested] (boot example_page) = Some load_pending_session
   \<and> \<not> repositoryLoaded load_pending_session
   \<and> currentPath load_pending_session = None
   \<and> enabled (LoadArrives (lit ''./repo'') stats_missing) load_pending_session
   \<and> repositoryLoaded (fire (LoadArrives (lit ''./repo'') stats_missing) load_pending_session)
   \<and> currentPath (fire (LoadArrives (lit ''./repo'') stats_missing) load_pending_session)
       = Some (lit ''./repo'')
   \<and> repoStatus_className (fire (LoadArrives (lit ''./repo'') stats_missing) load_pending_session)
       = lit ''repo-status error''
   \<and> messages (fire (LoadArrives (lit ''./repo'') stats_missing) load_pending_session)
       = [assistant_entry attribute_ids (load_failure_html (cannot_read (lit ''vectors'')))]
   \<and> messageInput_disabled (fire (LoadArrives (lit ''./repo'') stats_missing) load_pending_session)
   \<and> sendBtn_disabled (fire (LoadArrives (lit ''./repo'') stats_missing) load_pending_session)"
  by (simp add: load_pending_session_def after_def stats_missing_def example_page_def
      operation_defs trim_examples lit_nonempty status_classes Let_def)

end
